theory Spec2Isabelle
  imports Complex_Main
begin

section \<open>Equations of motion of a 6-DOF aircraft\<close>

text \<open>
  The notebook \<^verbatim>\<open>EOM Derivation/Equations of Motion.ipynb\<close> derives the body-frame
  translational and rotational accelerations with sympy.  Every sympy symbol stands for a
  real number, a column \<^verbatim>\<open>Matrix([a, b, c])\<close> is a triple and a 3x3 \<^verbatim>\<open>Matrix\<close> is a
  triple of rows.  The notebook divides in two places (\<^verbatim>\<open>1/m\<close> and
  \<^verbatim>\<open>J_b.inv()\<close>) and checks neither divisor.  The model gives the expressions their
  value as real numbers wherever the divisor is not zero; at a zero divisor it returns
  \<open>None\<close>, which stands for an input at which the model does not say what the sympy
  expression evaluates to.
\<close>

subsection \<open>Vectors and matrices\<close>

type_synonym vec3 = "real \<times> real \<times> real"
type_synonym mat3 = "vec3 \<times> vec3 \<times> vec3"

fun vadd :: "vec3 \<Rightarrow> vec3 \<Rightarrow> vec3" where
  "vadd (a1, a2, a3) (b1, b2, b3) = (a1 + b1, a2 + b2, a3 + b3)"

fun vsub :: "vec3 \<Rightarrow> vec3 \<Rightarrow> vec3" where
  "vsub (a1, a2, a3) (b1, b2, b3) = (a1 - b1, a2 - b2, a3 - b3)"

fun smul :: "real \<Rightarrow> vec3 \<Rightarrow> vec3" where
  "smul k (a1, a2, a3) = (k * a1, k * a2, k * a3)"

fun dot :: "vec3 \<Rightarrow> vec3 \<Rightarrow> real" where
  "dot (a1, a2, a3) (b1, b2, b3) = a1 * b1 + a2 * b2 + a3 * b3"

text \<open>\<^verbatim>\<open>a.cross(b)\<close>: the 3-vector cross product.\<close>

fun cross :: "vec3 \<Rightarrow> vec3 \<Rightarrow> vec3" where
  "cross (a1, a2, a3) (b1, b2, b3) =
     (a2 * b3 - a3 * b2, a3 * b1 - a1 * b3, a1 * b2 - a2 * b1)"

text \<open>\<^verbatim>\<open>A @ x\<close> for a column vector \<open>x\<close>: each row of \<open>A\<close> against \<open>x\<close>.\<close>

fun mat_vec :: "mat3 \<Rightarrow> vec3 \<Rightarrow> vec3" where
  "mat_vec (r1, r2, r3) x = (dot r1 x, dot r2 x, dot r3 x)"

fun transpose3 :: "mat3 \<Rightarrow> mat3" where
  "transpose3 ((a11, a12, a13), (a21, a22, a23), (a31, a32, a33)) =
     ((a11, a21, a31), (a12, a22, a32), (a13, a23, a33))"

text \<open>\<^verbatim>\<open>A @ B\<close>: entry \<open>(i, j)\<close> is row \<open>i\<close> of \<open>A\<close> against column \<open>j\<close> of \<open>B\<close>.\<close>

fun mat_mul :: "mat3 \<Rightarrow> mat3 \<Rightarrow> mat3" where
  "mat_mul (r1, r2, r3) B =
     (case transpose3 B of (c1, c2, c3) \<Rightarrow>
        ((dot r1 c1, dot r1 c2, dot r1 c3),
         (dot r2 c1, dot r2 c2, dot r2 c3),
         (dot r3 c1, dot r3 c2, dot r3 c3)))"

definition eye3 :: mat3 where
  "eye3 = ((1, 0, 0), (0, 1, 0), (0, 0, 1))"

fun mat_smul :: "real \<Rightarrow> mat3 \<Rightarrow> mat3" where
  "mat_smul k (r1, r2, r3) = (smul k r1, smul k r2, smul k r3)"

fun det3 :: "mat3 \<Rightarrow> real" where
  "det3 ((a11, a12, a13), (a21, a22, a23), (a31, a32, a33)) =
     a11 * (a22 * a33 - a23 * a32) - a12 * (a21 * a33 - a23 * a31)
       + a13 * (a21 * a32 - a22 * a31)"

fun adj3 :: "mat3 \<Rightarrow> mat3" where
  "adj3 ((a11, a12, a13), (a21, a22, a23), (a31, a32, a33)) =
     ((a22 * a33 - a23 * a32, a13 * a32 - a12 * a33, a12 * a23 - a13 * a22),
      (a23 * a31 - a21 * a33, a11 * a33 - a13 * a31, a13 * a21 - a11 * a23),
      (a21 * a32 - a22 * a31, a12 * a31 - a11 * a32, a11 * a22 - a12 * a21))"

text \<open>
  \<^verbatim>\<open>A.inv()\<close>: the inverse of a 3x3 matrix, the adjugate over the determinant.  The
  notebook inverts symbolically and tests no determinant; \<open>None\<close> marks the matrices
  with determinant zero, which the model leaves undetermined.
\<close>

definition inv3 :: "mat3 \<Rightarrow> mat3 option" where
  "inv3 A = (if det3 A = 0 then None else Some (mat_smul (1 / det3 A) (adj3 A)))"

text \<open>
  \<^verbatim>\<open>1/m\<close>: the notebook tests no mass; \<open>None\<close> marks \<open>m = 0\<close>, which the model leaves
  undetermined.
\<close>

definition recip :: "real \<Rightarrow> real option" where
  "recip m = (if m = 0 then None else Some (1 / m))"

subsection \<open>Translational equations\<close>

definition vel_b :: "real \<Rightarrow> real \<Rightarrow> real \<Rightarrow> vec3" where
  "vel_b u v w = (u, v, w)"

definition omega_b :: "real \<Rightarrow> real \<Rightarrow> real \<Rightarrow> vec3" where
  "omega_b p q r = (p, q, r)"

definition F_a :: "real \<Rightarrow> real \<Rightarrow> real \<Rightarrow> vec3" where
  "F_a F_x F_y F_z = (F_x, F_y, F_z)"

definition g_n :: "real \<Rightarrow> vec3" where
  "g_n G = (0, 0, G)"

definition Rx :: "real \<Rightarrow> mat3" where
  "Rx phi = ((1, 0, 0),
             (0, cos phi, sin phi),
             (0, - sin phi, cos phi))"

definition Ry :: "real \<Rightarrow> mat3" where
  "Ry theta = ((cos theta, 0, - sin theta),
               (0, 1, 0),
               (sin theta, 0, cos theta))"

definition Rz :: "real \<Rightarrow> mat3" where
  "Rz psi = ((cos psi, sin psi, 0),
             (- sin psi, cos psi, 0),
             (0, 0, 1))"

text \<open>\<^verbatim>\<open>C_bn = Rx @ Ry @ Rz\<close>; Python's \<^verbatim>\<open>@\<close> associates to the left.\<close>

definition C_bn :: "real \<Rightarrow> real \<Rightarrow> real \<Rightarrow> mat3" where
  "C_bn phi theta psi = mat_mul (mat_mul (Rx phi) (Ry theta)) (Rz psi)"

text \<open>\<^verbatim>\<open>acc_cm = 1/m*F_a + C_bn @ g_n - (omega_b.cross(vel_b))\<close>\<close>

definition acc_cm ::
  "real \<Rightarrow> real \<Rightarrow> real \<Rightarrow> real \<Rightarrow> real \<Rightarrow> real \<Rightarrow> real \<Rightarrow> real \<Rightarrow> real \<Rightarrow> real
     \<Rightarrow> real \<Rightarrow> real \<Rightarrow> real \<Rightarrow> real \<Rightarrow> vec3 option" where
  "acc_cm u v w p q r G psi theta phi F_x F_y F_z m =
     (case recip m of
        None \<Rightarrow> None
      | Some k \<Rightarrow>
          Some (vsub (vadd (smul k (F_a F_x F_y F_z))
                           (mat_vec (C_bn phi theta psi) (g_n G)))
                     (cross (omega_b p q r) (vel_b u v w))))"

subsection \<open>Rotational equations\<close>

definition M_AT :: "real \<Rightarrow> real \<Rightarrow> real \<Rightarrow> vec3" where
  "M_AT L M N = (L, M, N)"

definition J_b :: "real \<Rightarrow> real \<Rightarrow> real \<Rightarrow> real \<Rightarrow> mat3" where
  "J_b J_x J_y J_z J_xz = ((J_x, 0, J_xz),
                           (0, J_y, 0),
                           (J_xz, 0, J_z))"

text \<open>\<^verbatim>\<open>ang_acc_cm = (J_b.inv() @ (M_AT - omega_b.cross(J_b @ omega_b)))\<close>\<close>

definition ang_acc_cm ::
  "real \<Rightarrow> real \<Rightarrow> real \<Rightarrow> real \<Rightarrow> real \<Rightarrow> real \<Rightarrow> real \<Rightarrow> real \<Rightarrow> real \<Rightarrow> real
     \<Rightarrow> vec3 option" where
  "ang_acc_cm p q r J_x J_y J_z J_xz L M N =
     (case inv3 (J_b J_x J_y J_z J_xz) of
        None \<Rightarrow> None
      | Some Ji \<Rightarrow>
          Some (mat_vec Ji
                  (vsub (M_AT L M N)
                        (cross (omega_b p q r)
                               (mat_vec (J_b J_x J_y J_z J_xz) (omega_b p q r))))))"

text \<open>
  The closed form of the angular acceleration as the specification writes it, with the
  denominator \<open>J_x J_z - J_xz\<^sup>2\<close>.
\<close>

definition ang_acc_closed ::
  "real \<Rightarrow> real \<Rightarrow> real \<Rightarrow> real \<Rightarrow> real \<Rightarrow> real \<Rightarrow> real \<Rightarrow> real \<Rightarrow> real \<Rightarrow> real \<Rightarrow> vec3" where
  "ang_acc_closed p q r J_x J_y J_z J_xz L M N =
     ((J_xz * (J_x - J_y + J_z) * p * q - (J_z * (J_z - J_y) + J_xz\<^sup>2) * q * r
         + J_z * L + J_xz * N) / (J_x * J_z - J_xz\<^sup>2),
      ((J_z - J_x) * r * p - J_xz * (p\<^sup>2 - r\<^sup>2) + M) / J_y,
      (- J_xz * (J_x - J_y + J_z) * q * r + (J_x * (J_x - J_y) + J_xz\<^sup>2) * p * q
         + J_xz * L + J_x * N) / (J_x * J_z - J_xz\<^sup>2))"

section \<open>Properties\<close>

subsection \<open>Matrix algebra\<close>

text \<open>
  The adjugate identity shows that \<open>inv3\<close> returns a two-sided inverse whenever it returns
  a matrix, so the model of \<^verbatim>\<open>inv()\<close> does not depend on how sympy computes it.
\<close>

lemma mat_mul_adj3: "mat_mul A (adj3 A) = mat_smul (det3 A) eye3"
proof -
  obtain a11 a12 a13 a21 a22 a23 a31 a32 a33 where
    A: "A = ((a11, a12, a13), (a21, a22, a23), (a31, a32, a33))"
    by (metis prod_cases3)
  show ?thesis unfolding A eye3_def by (simp add: algebra_simps)
qed

lemma adj3_mat_mul: "mat_mul (adj3 A) A = mat_smul (det3 A) eye3"
proof -
  obtain a11 a12 a13 a21 a22 a23 a31 a32 a33 where
    A: "A = ((a11, a12, a13), (a21, a22, a23), (a31, a32, a33))"
    by (metis prod_cases3)
  show ?thesis unfolding A eye3_def by (simp add: algebra_simps)
qed

lemma mat_mul_smul_right: "mat_mul A (mat_smul k B) = mat_smul k (mat_mul A B)"
proof -
  obtain a1 a2 a3 b1 b2 b3 where AB: "A = (a1, a2, a3)" "B = (b1, b2, b3)"
    by (metis prod_cases3)
  obtain b11 b12 b13 b21 b22 b23 b31 b32 b33 a11 a12 a13 a21 a22 a23 a31 a32 a33 where
    r: "b1 = (b11, b12, b13)" "b2 = (b21, b22, b23)" "b3 = (b31, b32, b33)"
       "a1 = (a11, a12, a13)" "a2 = (a21, a22, a23)" "a3 = (a31, a32, a33)"
    by (metis prod_cases3)
  show ?thesis unfolding AB r by (simp add: algebra_simps)
qed

lemma mat_mul_smul_left: "mat_mul (mat_smul k A) B = mat_smul k (mat_mul A B)"
proof -
  obtain a1 a2 a3 b1 b2 b3 where AB: "A = (a1, a2, a3)" "B = (b1, b2, b3)"
    by (metis prod_cases3)
  obtain b11 b12 b13 b21 b22 b23 b31 b32 b33 a11 a12 a13 a21 a22 a23 a31 a32 a33 where
    r: "b1 = (b11, b12, b13)" "b2 = (b21, b22, b23)" "b3 = (b31, b32, b33)"
       "a1 = (a11, a12, a13)" "a2 = (a21, a22, a23)" "a3 = (a31, a32, a33)"
    by (metis prod_cases3)
  show ?thesis unfolding AB r by (simp add: algebra_simps)
qed

lemma mat_smul_inverse: "d \<noteq> 0 \<Longrightarrow> mat_smul (1 / d) (mat_smul d eye3) = eye3"
  by (simp add: eye3_def)

lemma inv3_right:
  assumes "inv3 A = Some B"
  shows "mat_mul A B = eye3"
proof -
  from assms have d: "det3 A \<noteq> 0" and B: "B = mat_smul (1 / det3 A) (adj3 A)"
    by (auto simp: inv3_def split: if_splits)
  show ?thesis
    unfolding B mat_mul_smul_right mat_mul_adj3 by (rule mat_smul_inverse [OF d])
qed

lemma inv3_left:
  assumes "inv3 A = Some B"
  shows "mat_mul B A = eye3"
proof -
  from assms have d: "det3 A \<noteq> 0" and B: "B = mat_smul (1 / det3 A) (adj3 A)"
    by (auto simp: inv3_def split: if_splits)
  show ?thesis
    unfolding B mat_mul_smul_left adj3_mat_mul by (rule mat_smul_inverse [OF d])
qed

lemma mat_mul_assoc: "mat_mul (mat_mul A B) C = mat_mul A (mat_mul B C)"
proof -
  obtain a11 a12 a13 a21 a22 a23 a31 a32 a33 where
    A: "A = ((a11, a12, a13), (a21, a22, a23), (a31, a32, a33))"
    by (metis prod_cases3)
  obtain b11 b12 b13 b21 b22 b23 b31 b32 b33 where
    B: "B = ((b11, b12, b13), (b21, b22, b23), (b31, b32, b33))"
    by (metis prod_cases3)
  obtain c11 c12 c13 c21 c22 c23 c31 c32 c33 where
    C: "C = ((c11, c12, c13), (c21, c22, c23), (c31, c32, c33))"
    by (metis prod_cases3)
  show ?thesis unfolding A B C by (simp add: algebra_simps)
qed

lemma transpose3_mat_mul:
  "transpose3 (mat_mul A B) = mat_mul (transpose3 B) (transpose3 A)"
proof -
  obtain a11 a12 a13 a21 a22 a23 a31 a32 a33 where
    A: "A = ((a11, a12, a13), (a21, a22, a23), (a31, a32, a33))"
    by (metis prod_cases3)
  obtain b11 b12 b13 b21 b22 b23 b31 b32 b33 where
    B: "B = ((b11, b12, b13), (b21, b22, b23), (b31, b32, b33))"
    by (metis prod_cases3)
  show ?thesis unfolding A B by (simp add: algebra_simps)
qed

lemma eye3_mat_mul: "mat_mul eye3 A = A"
proof -
  obtain a11 a12 a13 a21 a22 a23 a31 a32 a33 where
    A: "A = ((a11, a12, a13), (a21, a22, a23), (a31, a32, a33))"
    by (metis prod_cases3)
  show ?thesis unfolding A eye3_def by simp
qed

lemma orth_mul:
  assumes "mat_mul A (transpose3 A) = eye3" "mat_mul B (transpose3 B) = eye3"
  shows "mat_mul (mat_mul A B) (transpose3 (mat_mul A B)) = eye3"
proof -
  have "mat_mul (mat_mul A B) (transpose3 (mat_mul A B))
      = mat_mul A (mat_mul (mat_mul B (transpose3 B)) (transpose3 A))"
    by (simp only: transpose3_mat_mul mat_mul_assoc)
  also have "\<dots> = eye3"
    by (simp only: assms eye3_mat_mul)
  finally show ?thesis .
qed

subsection \<open>The direction-cosine matrix\<close>

lemma C_bn_expanded:
  "C_bn phi theta psi =
    ((cos theta * cos psi, cos theta * sin psi, - sin theta),
     (- cos phi * sin psi + sin phi * sin theta * cos psi,
      cos phi * cos psi + sin phi * sin theta * sin psi,
      sin phi * cos theta),
     (sin phi * sin psi + cos phi * sin theta * cos psi,
      - sin phi * cos psi + cos phi * sin theta * sin psi,
      cos phi * cos theta))"
  by (simp add: C_bn_def Rx_def Ry_def Rz_def algebra_simps)

lemma Rx_orth: "mat_mul (Rx a) (transpose3 (Rx a)) = eye3"
  by (simp add: Rx_def eye3_def power2_eq_square [symmetric])

lemma Ry_orth: "mat_mul (Ry a) (transpose3 (Ry a)) = eye3"
  by (simp add: Ry_def eye3_def power2_eq_square [symmetric])

lemma Rz_orth: "mat_mul (Rz a) (transpose3 (Rz a)) = eye3"
  by (simp add: Rz_def eye3_def power2_eq_square [symmetric])

text \<open>\<open>C_bn\<close> is orthogonal: its transpose is its inverse.\<close>

lemma C_bn_orthogonal:
  "mat_mul (C_bn phi theta psi) (transpose3 (C_bn phi theta psi)) = eye3"
  unfolding C_bn_def
  by (intro orth_mul Rx_orth Ry_orth Rz_orth)

lemma C_bn_g_n:
  "mat_vec (C_bn phi theta psi) (g_n G)
     = (- G * sin theta, G * sin phi * cos theta, G * cos phi * cos theta)"
  by (simp add: C_bn_def Rx_def Ry_def Rz_def g_n_def algebra_simps)

lemma sq_norm_aux:
  fixes G :: real
  shows "(G * sin theta)\<^sup>2 + (G * sin phi * cos theta)\<^sup>2 + (G * cos phi * cos theta)\<^sup>2 = G\<^sup>2"
proof -
  have "(G * sin theta)\<^sup>2 + (G * sin phi * cos theta)\<^sup>2 + (G * cos phi * cos theta)\<^sup>2
      = G\<^sup>2 * ((sin theta)\<^sup>2 + ((sin phi)\<^sup>2 + (cos phi)\<^sup>2) * (cos theta)\<^sup>2)"
    by algebra
  also have "\<dots> = G\<^sup>2 * ((sin theta)\<^sup>2 + (cos theta)\<^sup>2)"
    by (simp only: sin_cos_squared_add mult_1)
  also have "\<dots> = G\<^sup>2"
    by (simp only: sin_cos_squared_add mult_1_right)
  finally show ?thesis .
qed

subsection \<open>The outputs recorded in the notebook\<close>

text \<open>
  Where \<open>m \<noteq> 0\<close> the translational cell evaluates to the matrix that the notebook
  prints as its output.
\<close>

lemma acc_cm_Some:
  assumes "m \<noteq> 0"
  shows "acc_cm u v w p q r G psi theta phi F_x F_y F_z m
     = Some (F_x / m - G * sin theta - q * w + r * v,
             F_y / m + G * sin phi * cos theta + p * w - r * u,
             F_z / m + G * cos phi * cos theta - p * v + q * u)"
  using assms
  by (simp add: acc_cm_def recip_def C_bn_g_n F_a_def omega_b_def vel_b_def)

lemma det3_J_b: "det3 (J_b J_x J_y J_z J_xz) = J_y * (J_x * J_z - J_xz\<^sup>2)"
  by (simp add: J_b_def power2_eq_square algebra_simps)

lemma inv3_J_b_Some:
  assumes "J_y \<noteq> 0" "J_x * J_z - J_xz\<^sup>2 \<noteq> 0"
  shows "inv3 (J_b J_x J_y J_z J_xz) =
     Some ((J_z / (J_x * J_z - J_xz\<^sup>2), 0, - J_xz / (J_x * J_z - J_xz\<^sup>2)),
           (0, 1 / J_y, 0),
           (- J_xz / (J_x * J_z - J_xz\<^sup>2), 0, J_x / (J_x * J_z - J_xz\<^sup>2)))"
proof -
  have d: "det3 (J_b J_x J_y J_z J_xz) \<noteq> 0" using assms by (simp add: det3_J_b)
  show ?thesis
    using d assms unfolding inv3_def
    apply (simp add: det3_J_b)
    apply (simp add: J_b_def)
    apply (simp add: field_simps power2_eq_square)
    done
qed

text \<open>
  Where \<open>J_b\<close> is invertible the rotational cell evaluates to the matrix that the notebook
  prints as its output.
\<close>

lemma ang_acc_cm_output:
  assumes "J_y \<noteq> 0" "J_x * J_z - J_xz\<^sup>2 \<noteq> 0"
  shows "ang_acc_cm p q r J_x J_y J_z J_xz L M N =
     Some (- J_xz * (- J_y * p * q + N + q * (J_x * p + J_xz * r)) / (J_x * J_z - J_xz\<^sup>2)
             + J_z * (J_y * q * r + L - q * (J_xz * p + J_z * r)) / (J_x * J_z - J_xz\<^sup>2),
           (M + p * (J_xz * p + J_z * r) - r * (J_x * p + J_xz * r)) / J_y,
           J_x * (- J_y * p * q + N + q * (J_x * p + J_xz * r)) / (J_x * J_z - J_xz\<^sup>2)
             - J_xz * (J_y * q * r + L - q * (J_xz * p + J_z * r)) / (J_x * J_z - J_xz\<^sup>2))"
  unfolding ang_acc_cm_def inv3_J_b_Some [OF assms]
  apply (simp add: M_AT_def omega_b_def J_b_def)
  apply (simp add: algebra_simps add_divide_distrib diff_divide_distrib)
  done

text \<open>
  The computed angular acceleration is the closed form of the specification with the sign
  of \<open>J_xz\<close> reversed: \<open>J_b\<close> carries \<open>+ J_xz\<close> off the diagonal, the closed form belongs
  to the inertia matrix with \<open>- J_xz\<close> there.
\<close>

lemma ang_acc_cm_closed_neg:
  assumes "J_y \<noteq> 0" "J_x * J_z - J_xz\<^sup>2 \<noteq> 0"
  shows "ang_acc_cm p q r J_x J_y J_z J_xz L M N
           = Some (ang_acc_closed p q r J_x J_y J_z (- J_xz) L M N)"
  unfolding ang_acc_cm_output [OF assms] ang_acc_closed_def
  using assms
  apply (simp add: add_divide_distrib [symmetric] diff_divide_distrib [symmetric])
  apply (simp add: power2_eq_square algebra_simps)
  done

section \<open>The claims\<close>

subsection \<open>Translational derivative\<close>

text \<open>
  C1. For every velocity \<open>(u, v, w)\<close>, angular velocity \<open>(p, q, r)\<close>, force
  \<open>(F_x, F_y, F_z)\<close>, mass \<open>m \<noteq> 0\<close>, gravity \<open>G\<close> and Euler angles, the translational
  derivative is \<open>F/m + C_bn (0, 0, G) - \<omega> \<times> v\<close>, and its three components are
  \<open>F_x/m - G sin \<theta> - q w + r v\<close>, \<open>F_y/m + G sin \<phi> cos \<theta> + p w - r u\<close> and
  \<open>F_z/m + G cos \<phi> cos \<theta> - p v + q u\<close>.
\<close>

theorem acc_cm_components:
  assumes "m \<noteq> 0"
  shows "acc_cm u v w p q r G psi theta phi F_x F_y F_z m
           = Some (vsub (vadd (smul (1 / m) (F_x, F_y, F_z))
                              (mat_vec (C_bn phi theta psi) (0, 0, G)))
                        (cross (p, q, r) (u, v, w)))
       \<and> acc_cm u v w p q r G psi theta phi F_x F_y F_z m
           = Some (F_x / m - G * sin theta - q * w + r * v,
                   F_y / m + G * sin phi * cos theta + p * w - r * u,
                   F_z / m + G * cos phi * cos theta - p * v + q * u)"
proof
  show "acc_cm u v w p q r G psi theta phi F_x F_y F_z m
           = Some (vsub (vadd (smul (1 / m) (F_x, F_y, F_z))
                              (mat_vec (C_bn phi theta psi) (0, 0, G)))
                        (cross (p, q, r) (u, v, w)))"
    using assms
    by (simp add: acc_cm_def recip_def F_a_def omega_b_def vel_b_def g_n_def)
  show "acc_cm u v w p q r G psi theta phi F_x F_y F_z m
           = Some (F_x / m - G * sin theta - q * w + r * v,
                   F_y / m + G * sin phi * cos theta + p * w - r * u,
                   F_z / m + G * cos phi * cos theta - p * v + q * u)"
    by (rule acc_cm_Some [OF assms])
qed

theorem acc_cm_components_witness:
  "(2::real) \<noteq> 0 \<and>
   acc_cm 1 2 3 4 5 6 10 0 0 0 2 4 6 2
     = Some (vsub (vadd (smul (1 / 2) (2, 4, 6)) (mat_vec (C_bn 0 0 0) (0, 0, 10)))
                  (cross (4, 5, 6) (1, 2, 3)))
   \<and> acc_cm 1 2 3 4 5 6 10 0 0 0 2 4 6 2 = Some (- 2, 8, 10)"
  using acc_cm_components [of 2 1 2 3 4 5 6 10 0 0 0 2 4 6]
  by (simp add: C_bn_def Rx_def Ry_def Rz_def)

text \<open>
  C7. With zero applied force and zero gravity the translational derivative is the pure
  rotational coupling \<open>- \<omega> \<times> v\<close>, that is \<open>(- q w + r v, p w - r u, - p v + q u)\<close>, for
  every velocity, angular velocity and Euler angle triple.  The moment does not enter the
  translational derivative; the mass is one at which \<^verbatim>\<open>1/m\<close> has a value.
\<close>

theorem acc_cm_pure_coupling:
  assumes "m \<noteq> 0"
  shows "acc_cm u v w p q r 0 psi theta phi 0 0 0 m
           = Some (vsub (0, 0, 0) (cross (p, q, r) (u, v, w)))
       \<and> acc_cm u v w p q r 0 psi theta phi 0 0 0 m
           = Some (- q * w + r * v, p * w - r * u, - p * v + q * u)"
  by (simp add: acc_cm_Some [OF assms])

theorem acc_cm_pure_coupling_witness:
  "(5::real) \<noteq> 0
   \<and> acc_cm 1 2 3 4 5 6 0 1 2 3 0 0 0 5 = Some (vsub (0, 0, 0) (cross (4, 5, 6) (1, 2, 3)))
   \<and> acc_cm 1 2 3 4 5 6 0 1 2 3 0 0 0 5 = Some (- 3, 6, - 3)"
  using acc_cm_pure_coupling [of 5 1 2 3 4 5 6 1 2 3] by simp

text \<open>
  C8. In the scenario \<open>m = 1000\<close>, \<open>G = 9.81\<close>, all Euler angles zero,
  \<open>(u, v, w) = (100, 0, 0)\<close>, \<open>(p, q, r) = (0, 0.1, 0)\<close> and no applied force, the claim
  expects the derivative \<open>(0, 0, 10)\<close>.  The third component is not \<open>10\<close>: gravity adds
  \<open>9.81\<close> to the coupling term \<open>q u = 10\<close>.
\<close>

theorem acc_cm_scenario_not_10:
  "acc_cm 100 0 0 0 (1 / 10) 0 (981 / 100) 0 0 0 0 0 0 1000 \<noteq> Some (0, 0, 10)"
  by (simp add: acc_cm_Some)

text \<open>
  C8, as amended.  In that scenario the translational derivative is \<open>(0, 0, 19.81)\<close>.
\<close>

theorem acc_cm_scenario:
  "acc_cm 100 0 0 0 (1 / 10) 0 (981 / 100) 0 0 0 0 0 0 1000 = Some (0, 0, 1981 / 100)"
  by (simp add: acc_cm_Some)

subsection \<open>Attitude transform and gravity\<close>

text \<open>
  C5. For every Euler angle triple the direction-cosine matrix \<open>C_bn\<close> is the product of
  the elementary rotation about x by \<open>\<phi>\<close>, about y by \<open>\<theta>\<close> and about z by \<open>\<psi>\<close>, in
  that order, each the standard elementary frame rotation; the product is the Z-Y-X
  (yaw-pitch-roll) direction-cosine matrix.
\<close>

theorem C_bn_is_Rx_Ry_Rz:
  "C_bn phi theta psi = mat_mul (Rx phi) (mat_mul (Ry theta) (Rz psi))
   \<and> Rx phi = ((1, 0, 0), (0, cos phi, sin phi), (0, - sin phi, cos phi))
   \<and> Ry theta = ((cos theta, 0, - sin theta), (0, 1, 0), (sin theta, 0, cos theta))
   \<and> Rz psi = ((cos psi, sin psi, 0), (- sin psi, cos psi, 0), (0, 0, 1))
   \<and> C_bn phi theta psi =
       ((cos theta * cos psi, cos theta * sin psi, - sin theta),
        (- cos phi * sin psi + sin phi * sin theta * cos psi,
         cos phi * cos psi + sin phi * sin theta * sin psi,
         sin phi * cos theta),
        (sin phi * sin psi + cos phi * sin theta * cos psi,
         - sin phi * cos psi + cos phi * sin theta * sin psi,
         cos phi * cos theta))"
proof (intro conjI)
  show "C_bn phi theta psi = mat_mul (Rx phi) (mat_mul (Ry theta) (Rz psi))"
    by (simp only: C_bn_def mat_mul_assoc)
  show "Rx phi = ((1, 0, 0), (0, cos phi, sin phi), (0, - sin phi, cos phi))"
    by (simp only: Rx_def)
  show "Ry theta = ((cos theta, 0, - sin theta), (0, 1, 0), (sin theta, 0, cos theta))"
    by (simp only: Ry_def)
  show "Rz psi = ((cos psi, sin psi, 0), (- sin psi, cos psi, 0), (0, 0, 1))"
    by (simp only: Rz_def)
  show "C_bn phi theta psi =
       ((cos theta * cos psi, cos theta * sin psi, - sin theta),
        (- cos phi * sin psi + sin phi * sin theta * cos psi,
         cos phi * cos psi + sin phi * sin theta * sin psi,
         sin phi * cos theta),
        (sin phi * sin psi + cos phi * sin theta * cos psi,
         - sin phi * cos psi + cos phi * sin theta * sin psi,
         cos phi * cos theta))"
    by (rule C_bn_expanded)
qed

text \<open>
  C3. For every Euler angle triple and gravity magnitude \<open>G\<close>, the full matrix product
  \<open>C_bn (0, 0, G)\<close> equals the closed-form projection
  \<open>(- G sin \<theta>, G sin \<phi> cos \<theta>, G cos \<phi> cos \<theta>)\<close>.
\<close>

theorem gravity_projection_closed_form:
  "mat_vec (C_bn phi theta psi) (g_n G)
     = (- G * sin theta, G * sin phi * cos theta, G * cos phi * cos theta)"
proof -
  have "mat_vec (C_bn phi theta psi) (0, 0, G)
          = (- sin theta * G, sin phi * cos theta * G, cos phi * cos theta * G)"
    by (simp add: C_bn_expanded)
  then show ?thesis by (simp add: g_n_def mult.commute mult.left_commute)
qed

text \<open>
  C9. The gravity vector in the body frame does not depend on the yaw angle \<open>\<psi>\<close>, and so
  neither does the translational derivative: two evaluations that differ only in \<open>\<psi>\<close>
  agree.
\<close>

theorem gravity_yaw_independent:
  "mat_vec (C_bn phi theta psi1) (g_n G) = mat_vec (C_bn phi theta psi2) (g_n G)
   \<and> acc_cm u v w p q r G psi1 theta phi F_x F_y F_z m
       = acc_cm u v w p q r G psi2 theta phi F_x F_y F_z m"
  by (cases "recip m") (simp_all add: acc_cm_def C_bn_g_n)

text \<open>
  C10. The gravity vector in the body frame has squared Euclidean norm \<open>G\<^sup>2\<close>:
  \<open>(G sin \<theta>)\<^sup>2 + (G sin \<phi> cos \<theta>)\<^sup>2 + (G cos \<phi> cos \<theta>)\<^sup>2 = G\<^sup>2\<close>.
\<close>

theorem gravity_norm_preserved:
  "dot (mat_vec (C_bn phi theta psi) (g_n G)) (mat_vec (C_bn phi theta psi) (g_n G)) = G\<^sup>2
   \<and> (G * sin theta)\<^sup>2 + (G * sin phi * cos theta)\<^sup>2 + (G * cos phi * cos theta)\<^sup>2 = G\<^sup>2"
  using sq_norm_aux [of G theta phi]
  by (simp add: C_bn_g_n power2_eq_square)

subsection \<open>Rotational derivative\<close>

text \<open>
  C2. The claim is that forming \<open>J\<close> and evaluating \<open>J\<^sup>-\<^sup>1 (M - \<omega> \<times> (J \<omega>))\<close> agrees with the
  closed form in the three components.  At \<open>(p, q, r) = (1, 0, 0)\<close>,
  \<open>J_x = J_y = J_z = 2\<close>, \<open>J_xz = 1\<close> and \<open>(L, M, N) = (1, 0, 1)\<close> the notebook's expression
  has the value \<open>(1/3, 1/2, 1/3)\<close> and the closed form the value \<open>(1, - 1/2, 1)\<close>.
\<close>

theorem ang_acc_cm_differs_from_closed_form:
  "ang_acc_cm 1 0 0 2 2 2 1 1 0 1 = Some (1 / 3, 1 / 2, 1 / 3)
   \<and> ang_acc_closed 1 0 0 2 2 2 1 1 0 1 = (1, - 1 / 2, 1)"
proof
  show "ang_acc_cm 1 0 0 2 2 2 1 1 0 1 = Some (1 / 3, 1 / 2, 1 / 3)"
    by (simp add: ang_acc_cm_output)
  show "ang_acc_closed 1 0 0 2 2 2 1 1 0 1 = (1, - 1 / 2, 1)"
    by (simp add: ang_acc_closed_def)
qed

text \<open>
  C6. With \<open>J_xz = 0\<close> and \<open>J_x\<close>, \<open>J_y\<close>, \<open>J_z\<close> all non-zero the rotational derivative is
  the decoupled Euler equations \<open>((J_y - J_z) q r + L) / J_x\<close>,
  \<open>((J_z - J_x) r p + M) / J_y\<close> and \<open>((J_x - J_y) p q + N) / J_z\<close>.
\<close>

theorem ang_acc_cm_euler_decoupled:
  assumes "J_x \<noteq> 0" "J_y \<noteq> 0" "J_z \<noteq> 0"
  shows "ang_acc_cm p q r J_x J_y J_z 0 L M N
           = Some (((J_y - J_z) * q * r + L) / J_x,
                   ((J_z - J_x) * r * p + M) / J_y,
                   ((J_x - J_y) * p * q + N) / J_z)"
proof -
  have d: "J_x * J_z - 0\<^sup>2 \<noteq> 0" using assms by simp
  show ?thesis
    unfolding ang_acc_cm_output [OF assms(2) d]
    using assms by (simp add: field_simps)
qed

theorem ang_acc_cm_euler_decoupled_witness:
  "(2::real) \<noteq> 0 \<and> (3::real) \<noteq> 0 \<and> (4::real) \<noteq> 0 \<and>
   ang_acc_cm 1 2 3 2 3 4 0 5 6 7 = Some (- 1 / 2, 4, 5 / 4)"
  using ang_acc_cm_euler_decoupled [of 2 3 4 1 2 3 5 6 7] by simp

subsection \<open>Negative mass and inertia\<close>

text \<open>
  C4. The claim is that the translational derivative fails exactly when \<open>m \<le> 0\<close> and the
  rotational derivative exactly when \<open>J_y \<le> 0\<close> or \<open>J_x J_z - J_xz\<^sup>2 \<le> 0\<close>.  The notebook
  checks nothing: at \<open>m = - 1\<close> the translational derivative has a value, and so has the
  rotational derivative at \<open>J_y = - 1\<close> and at \<open>J_x J_z - J_xz\<^sup>2 = - 3\<close>.
\<close>

theorem negative_mass_and_inertia_accepted:
  "(- 1 :: real) \<le> 0
   \<and> acc_cm 1 2 3 4 5 6 10 0 0 0 2 4 6 (- 1) = Some (- 5, 2, 1)
   \<and> ang_acc_cm 0 0 0 1 (- 1) 1 0 1 1 1 = Some (1, - 1, 1)
   \<and> (1 :: real) * 1 - 2\<^sup>2 \<le> 0
   \<and> ang_acc_cm 0 0 0 1 1 1 2 3 3 3 = Some (1, 3, 1)"
  by (simp add: acc_cm_Some ang_acc_cm_output)

text \<open>
  C4, as amended.  No input is rejected for its sign: for every \<open>m \<noteq> 0\<close>, negative
  masses included, the translational derivative is returned, and for every \<open>J_y \<noteq> 0\<close>
  and \<open>J_x J_z - J_xz\<^sup>2 \<noteq> 0\<close>, negative values included, the rotational derivative is
  returned; each is the value of the expression that the notebook prints.
\<close>

theorem nonzero_divisors_yield_derivative:
  "(m \<noteq> 0 \<longrightarrow>
      acc_cm u v w p q r G psi theta phi F_x F_y F_z m
        = Some (F_x / m - G * sin theta - q * w + r * v,
                F_y / m + G * sin phi * cos theta + p * w - r * u,
                F_z / m + G * cos phi * cos theta - p * v + q * u))
   \<and> (J_y \<noteq> 0 \<and> J_x * J_z - J_xz\<^sup>2 \<noteq> 0 \<longrightarrow>
      ang_acc_cm p q r J_x J_y J_z J_xz L M N
        = Some (- J_xz * (- J_y * p * q + N + q * (J_x * p + J_xz * r))
                    / (J_x * J_z - J_xz\<^sup>2)
                  + J_z * (J_y * q * r + L - q * (J_xz * p + J_z * r))
                    / (J_x * J_z - J_xz\<^sup>2),
                (M + p * (J_xz * p + J_z * r) - r * (J_x * p + J_xz * r)) / J_y,
                J_x * (- J_y * p * q + N + q * (J_x * p + J_xz * r))
                    / (J_x * J_z - J_xz\<^sup>2)
                  - J_xz * (J_y * q * r + L - q * (J_xz * p + J_z * r))
                    / (J_x * J_z - J_xz\<^sup>2)))"
proof (intro conjI impI)
  assume "m \<noteq> 0"
  then show "acc_cm u v w p q r G psi theta phi F_x F_y F_z m
        = Some (F_x / m - G * sin theta - q * w + r * v,
                F_y / m + G * sin phi * cos theta + p * w - r * u,
                F_z / m + G * cos phi * cos theta - p * v + q * u)"
    by (rule acc_cm_Some)
next
  assume J: "J_y \<noteq> 0 \<and> J_x * J_z - J_xz\<^sup>2 \<noteq> 0"
  from J have y: "J_y \<noteq> 0" and d: "J_x * J_z - J_xz\<^sup>2 \<noteq> 0" by simp_all
  show "ang_acc_cm p q r J_x J_y J_z J_xz L M N
        = Some (- J_xz * (- J_y * p * q + N + q * (J_x * p + J_xz * r))
                    / (J_x * J_z - J_xz\<^sup>2)
                  + J_z * (J_y * q * r + L - q * (J_xz * p + J_z * r))
                    / (J_x * J_z - J_xz\<^sup>2),
                (M + p * (J_xz * p + J_z * r) - r * (J_x * p + J_xz * r)) / J_y,
                J_x * (- J_y * p * q + N + q * (J_x * p + J_xz * r))
                    / (J_x * J_z - J_xz\<^sup>2)
                  - J_xz * (J_y * q * r + L - q * (J_xz * p + J_z * r))
                    / (J_x * J_z - J_xz\<^sup>2))"
    by (rule ang_acc_cm_output [OF y d])
qed

theorem nonzero_divisors_yield_derivative_witness:
  "(- 1 :: real) \<noteq> 0
   \<and> acc_cm 1 2 3 4 5 6 10 0 0 0 2 4 6 (- 1) = Some (- 5, 2, 1)
   \<and> (- 1 :: real) \<noteq> 0 \<and> (1 :: real) * 1 - 2\<^sup>2 \<noteq> 0
   \<and> ang_acc_cm 4 5 6 1 (- 1) 1 2 7 8 9 = Some (311 / 3, 32, - 295 / 3)"
  using nonzero_divisors_yield_derivative
          [of "- 1" 1 2 3 4 5 6 10 0 0 0 2 4 6 "- 1" 1 1 2 7 8 9]
  by simp

end
